theory Spec2Isabelle
  imports Complex_Main "HOL-Library.Multiset"
begin

section \<open>Speed profiles with a Gaussian kernel: the model of \<open>speed_profile.py\<close>\<close>

text \<open>
  The module computes, for every frame of a trajectory table, a grid of kernel-weighted
  average speeds. Its functions are embedded below in the order of the source:
  \<open>_compute_gaussian_weights\<close>, \<open>_compute_gaussian_weighted_speed_profile\<close>,
  \<open>get_grid_cells\<close> and \<open>compute_speed_profile\<close>. They keep their names, the first two
  without the leading underscore, and the names of their local variables.

  Numbers. The inputs (coordinates, speeds, \<open>grid_size\<close>, \<open>fwhm\<close>) are finite Python floats
  and are modelled as \<open>real\<close>; arithmetic on finite values is exact (no rounding, overflow or
  underflow, and \<open>-0.0\<close> is the same value as \<open>0.0\<close>). What numpy computes from them may be
  infinite or not a number, because numpy divides by zero without raising: these values
  are kept, with the IEEE 754 rules for them, in the type \<open>npfloat\<close>.
\<close>

subsection \<open>numpy's float64 values\<close>

datatype npfloat = Fin real | PInf | NInf | NaN

fun fneg :: "npfloat \<Rightarrow> npfloat" where
  "fneg (Fin a) = Fin (- a)"
| "fneg PInf = NInf"
| "fneg NInf = PInf"
| "fneg NaN = NaN"

fun fadd :: "npfloat \<Rightarrow> npfloat \<Rightarrow> npfloat" where
  "fadd (Fin a) (Fin b) = Fin (a + b)"
| "fadd NaN _ = NaN"
| "fadd _ NaN = NaN"
| "fadd PInf NInf = NaN"
| "fadd NInf PInf = NaN"
| "fadd PInf _ = PInf"
| "fadd _ PInf = PInf"
| "fadd NInf _ = NInf"
| "fadd _ NInf = NInf"

fun fmul :: "npfloat \<Rightarrow> npfloat \<Rightarrow> npfloat" where
  "fmul (Fin a) (Fin b) = Fin (a * b)"
| "fmul NaN _ = NaN"
| "fmul _ NaN = NaN"
| "fmul (Fin a) PInf = (if a = 0 then NaN else if 0 < a then PInf else NInf)"
| "fmul (Fin a) NInf = (if a = 0 then NaN else if 0 < a then NInf else PInf)"
| "fmul PInf (Fin b) = (if b = 0 then NaN else if 0 < b then PInf else NInf)"
| "fmul NInf (Fin b) = (if b = 0 then NaN else if 0 < b then NInf else PInf)"
| "fmul PInf PInf = PInf"
| "fmul NInf NInf = PInf"
| "fmul PInf NInf = NInf"
| "fmul NInf PInf = NInf"

fun fdiv :: "npfloat \<Rightarrow> npfloat \<Rightarrow> npfloat" where
  "fdiv (Fin a) (Fin b) =
     (if b = 0 then (if a = 0 then NaN else if 0 < a then PInf else NInf)
      else Fin (a / b))"
| "fdiv NaN _ = NaN"
| "fdiv _ NaN = NaN"
| "fdiv (Fin a) PInf = Fin 0"
| "fdiv (Fin a) NInf = Fin 0"
| "fdiv PInf (Fin b) = (if 0 \<le> b then PInf else NInf)"
| "fdiv NInf (Fin b) = (if 0 \<le> b then NInf else PInf)"
| "fdiv PInf PInf = NaN"
| "fdiv PInf NInf = NaN"
| "fdiv NInf PInf = NaN"
| "fdiv NInf NInf = NaN"

fun fexp :: "npfloat \<Rightarrow> npfloat" where
  "fexp (Fin a) = Fin (exp a)"
| "fexp PInf = PInf"
| "fexp NInf = Fin 0"
| "fexp NaN = NaN"

fun fsqrt :: "npfloat \<Rightarrow> npfloat" where
  "fsqrt (Fin a) = (if a < 0 then NaN else Fin (sqrt a))"
| "fsqrt PInf = PInf"
| "fsqrt NInf = NaN"
| "fsqrt NaN = NaN"

text \<open>\<open>x**2\<close> on an array is the elementwise square.\<close>

definition fsquare :: "npfloat \<Rightarrow> npfloat" where
  "fsquare a = fmul a a"

text \<open>
  \<open>np.sum\<close> along an axis: the sum of the entries, \<open>0.0\<close> for an axis of length zero.
\<close>

primrec fsum :: "npfloat list \<Rightarrow> npfloat" where
  "fsum [] = Fin 0"
| "fsum (w # ws) = fadd w (fsum ws)"

subsection \<open>\<open>_compute_gaussian_weights\<close>\<close>

definition compute_gaussian_weights :: "npfloat \<Rightarrow> real \<Rightarrow> npfloat" where
  "compute_gaussian_weights d fwhm =
     (let sigma = fdiv (Fin fwhm) (Fin (2 * sqrt (2 * ln 2)))
      in fmul (fdiv (Fin 1) (fmul sigma (Fin (sqrt (2 * pi)))))
              (fexp (fdiv (fneg (fsquare d)) (fmul (Fin 2) (fsquare sigma)))))"

subsection \<open>\<open>_compute_gaussian_weighted_speed_profile\<close>\<close>

text \<open>A row of the data frame: the frame number and the columns the kernel reads.\<close>

record row =
  frame_id :: int
  pos_x :: real
  pos_y :: real
  speed :: real

text \<open>\<open>np.subtract.outer(a, b)[i][k] = a[i] - b[k]\<close>.\<close>

definition subtract_outer :: "real list \<Rightarrow> real list \<Rightarrow> npfloat list list" where
  "subtract_outer a b = map (\<lambda>u. map (\<lambda>v. Fin (u - v)) b) a"

text \<open>
  The broadcast of \<open>distance_x[:, None, :]\<close> against \<open>distance_y[None, :, :]\<close>:
  entry \<open>[j][i][k]\<close> is the distance of agent \<open>k\<close> from the centre
  \<open>(center_x[j], center_y[i])\<close>.
\<close>

definition distance_tensor ::
  "npfloat list list \<Rightarrow> npfloat list list \<Rightarrow> npfloat list list list" where
  "distance_tensor distance_x distance_y =
     map (\<lambda>dx. map (\<lambda>dy. map2 (\<lambda>a b. fsqrt (fadd (fsquare a) (fsquare b))) dx dy)
                    distance_y) distance_x"

definition gaussian_weight_tensor ::
  "row list \<Rightarrow> real list \<Rightarrow> real list \<Rightarrow> real \<Rightarrow> npfloat list list list" where
  "gaussian_weight_tensor frame_data center_x center_y fwhm =
     (let positions_x = map pos_x frame_data;
          positions_y = map pos_y frame_data;
          distance_x = subtract_outer center_x positions_x;
          distance_y = subtract_outer center_y positions_y;
          distance = distance_tensor distance_x distance_y
      in map (map (map (\<lambda>d. compute_gaussian_weights d fwhm))) distance)"

text \<open>\<open>weights / np.sum(weights, axis=2, keepdims=True)\<close>, for the agents of one cell.\<close>

definition normalize_cell :: "npfloat list \<Rightarrow> npfloat list" where
  "normalize_cell ws = map (\<lambda>w. fdiv w (fsum ws)) ws"

definition normalize_weights :: "npfloat list list list \<Rightarrow> npfloat list list list" where
  "normalize_weights weights = map (map normalize_cell) weights"

text \<open>\<open>np.tensordot(normalized_weights, speeds, axes=([2], [0]))\<close>, for one cell.\<close>

definition tensordot_cell :: "npfloat list \<Rightarrow> real list \<Rightarrow> npfloat" where
  "tensordot_cell nws speeds = fsum (map2 fmul nws (map Fin speeds))"

text \<open>
  The transposition \<open>.T\<close> of an array of shape \<open>(n_x, n_y)\<close>, given as a list of \<open>n_x\<close> lists.
\<close>

definition transpose_T :: "nat \<Rightarrow> nat \<Rightarrow> 'a list list \<Rightarrow> 'a list list" where
  "transpose_T n_x n_y a = map (\<lambda>i. map (\<lambda>j. a ! j ! i) [0..<n_x]) [0..<n_y]"

definition compute_gaussian_weighted_speed_profile ::
  "row list \<Rightarrow> real list \<Rightarrow> real list \<Rightarrow> real \<Rightarrow> npfloat list list" where
  "compute_gaussian_weighted_speed_profile frame_data center_x center_y fwhm =
     (let speeds = map speed frame_data;
          weights = gaussian_weight_tensor frame_data center_x center_y fwhm;
          normalized_weights = normalize_weights weights;
          weighted_speeds = map (map (\<lambda>nws. tensordot_cell nws speeds)) normalized_weights
      in transpose_T (length center_x) (length center_y) weighted_speeds)"

subsection \<open>\<open>get_grid_cells\<close>\<close>

text \<open>
  The exceptions of the module: \<open>np.arange\<close> divides the span by the step in Python
  floats, which raises \<open>ZeroDivisionError\<close> for a zero step; numpy and the module itself
  raise \<open>ValueError\<close> with a message.
\<close>

datatype error = ZeroDivisionError | ValueError string

text \<open>
  \<open>np.arange(start, stop, step)\<close>: \<open>ceil((stop - start) / step)\<close> values
  \<open>start + i * step\<close>, none when that number is not positive.
\<close>

definition arange :: "real \<Rightarrow> real \<Rightarrow> real \<Rightarrow> error + real list" where
  "arange start stop step =
     (if step = 0 then Inl ZeroDivisionError
      else Inr (map (\<lambda>i. start + real i * step) [0..<nat \<lceil>(stop - start) / step\<rceil>]))"

text \<open>
  A walkable area is read through its bounding box \<open>(min_x, min_y, max_x, max_y)\<close> only.
  A cell is the rectangle \<open>shapely.box\<close> builds from four coordinates, kept as the four
  arguments of the call; its centroid is the midpoint.
\<close>

record WalkableArea =
  bounds :: "real \<times> real \<times> real \<times> real"

type_synonym box = "real \<times> real \<times> real \<times> real"

definition centroid :: "box \<Rightarrow> real \<times> real" where
  "centroid c = (case c of (x0, y0, x1, y1) \<Rightarrow> ((x0 + x1) / 2, (y0 + y1) / 2))"

definition get_grid_cells :: "WalkableArea \<Rightarrow> real \<Rightarrow> error + (box list \<times> int \<times> int)" where
  "get_grid_cells walkable_area grid_size =
     (case bounds walkable_area of (min_x, min_y, max_x, max_y) \<Rightarrow>
        (case arange min_x (max_x + grid_size) grid_size of
           Inl e \<Rightarrow> Inl e
         | Inr x_coords \<Rightarrow>
             (case arange max_y (min_y - grid_size) (- grid_size) of
                Inl e \<Rightarrow> Inl e
              | Inr y_coords \<Rightarrow>
                  Inr (concat (map (\<lambda>j. map (\<lambda>i. (x_coords ! i, y_coords ! j,
                                                    x_coords ! (i + 1), y_coords ! (j + 1)))
                                            [0..<length x_coords - 1])
                                   [0..<length y_coords - 1]),
                       int (length y_coords) - 1,
                       int (length x_coords) - 1))))"

subsection \<open>\<open>compute_speed_profile\<close>\<close>

text \<open>
  \<open>pedpy.SpeedMethod\<close>, the enumeration the caller chooses from; the module names
  \<open>GAUSSIAN\<close> only.
\<close>

datatype SpeedMethod = ARITHMETIC | VORONOI | MEAN | GAUSSIAN

definition speed_method_str :: "SpeedMethod \<Rightarrow> string" where
  "speed_method_str m =
     (case m of ARITHMETIC \<Rightarrow> ''SpeedMethod.ARITHMETIC'' | VORONOI \<Rightarrow> ''SpeedMethod.VORONOI''
      | MEAN \<Rightarrow> ''SpeedMethod.MEAN'' | GAUSSIAN \<Rightarrow> ''SpeedMethod.GAUSSIAN'')"

text \<open>
  \<open>data.groupby(FRAME_COL)\<close>, iterated: pandas sorts the group keys (\<open>sort=True\<close> is the
  default) and keeps the rows of a group in their order in the table.
\<close>

definition groupby_frame :: "row list \<Rightarrow> (int \<times> row list) list" where
  "groupby_frame data =
     map (\<lambda>f. (f, filter (\<lambda>r. frame_id r = f) data)) (sort (remdups (map frame_id data)))"

text \<open>
  \<open>a.reshape(rows, cols)\<close> of a two-dimensional array: the entries in row-major order,
  cut into \<open>rows\<close> rows of \<open>cols\<close> entries; \<open>ValueError\<close> when the sizes do not agree.
  The module reaches it with the shape of a grid of at least one cell, so that neither number
  is the \<open>-1\<close> that asks numpy to infer a dimension.
\<close>

definition reshape :: "int \<Rightarrow> int \<Rightarrow> 'a list list \<Rightarrow> error + 'a list list" where
  "reshape rows cols a =
     (let flat = concat a in
      if 0 \<le> rows \<and> 0 \<le> cols \<and> int (length flat) = rows * cols
      then Inr (map (\<lambda>i. take (nat cols) (drop (i * nat cols) flat)) [0..<nat rows])
      else Inl (ValueError ''cannot reshape array''))"

text \<open>The body of the loop over the groups, and the loop.\<close>

definition frame_profile ::
  "SpeedMethod \<Rightarrow> real list \<Rightarrow> real list \<Rightarrow> real \<Rightarrow> int \<Rightarrow> int \<Rightarrow> row list
     \<Rightarrow> error + npfloat list list" where
  "frame_profile speed_method center_x center_y fwhm rows cols frame_data =
     (if True \<or> speed_method = GAUSSIAN
      then reshape rows cols
             (compute_gaussian_weighted_speed_profile frame_data center_x center_y fwhm)
      else Inl (ValueError (''Speed method '' @ speed_method_str speed_method
                              @ '' not accepted'')))"

fun frames_loop ::
  "(row list \<Rightarrow> error + npfloat list list) \<Rightarrow> (int \<times> row list) list
     \<Rightarrow> error + npfloat list list list" where
  "frames_loop body [] = Inr []"
| "frames_loop body ((frame, frame_data) # groups) =
     (case body frame_data of
        Inl e \<Rightarrow> Inl e
      | Inr speed_profile \<Rightarrow>
          (case frames_loop body groups of
             Inl e \<Rightarrow> Inl e
           | Inr speed_profiles \<Rightarrow> Inr (speed_profile # speed_profiles)))"

text \<open>
  \<open>grid_center[::cols]\<close>: every \<open>cols\<close>-th entry, from the first one.
\<close>

definition every_nth :: "nat \<Rightarrow> 'a list \<Rightarrow> 'a list" where
  "every_nth n xs = map (\<lambda>k. xs ! (k * n)) [0..<(length xs + n - 1) div n]"

text \<open>
  \<open>np.vectorize(shapely.centroid)\<close> raises \<open>ValueError\<close> on an array without entries
  (no \<open>otypes\<close> is set). With at least one cell, \<open>cols\<close> is positive and the two slices
  are the first row and the first column of the grid.
\<close>

definition compute_speed_profile ::
  "row list \<Rightarrow> WalkableArea \<Rightarrow> real \<Rightarrow> SpeedMethod \<Rightarrow> real list option \<Rightarrow> npfloat \<Rightarrow> real
     \<Rightarrow> error + npfloat list list list" where
  "compute_speed_profile data walkable_area grid_size speed_method grid_intersections_area
       fill_value fwhm =
     (let data_grouped_by_frame = groupby_frame data in
      case get_grid_cells walkable_area grid_size of
        Inl e \<Rightarrow> Inl e
      | Inr (grid_cells, rows, cols) \<Rightarrow>
          if grid_cells = []
          then Inl (ValueError ''cannot call vectorize on size 0 inputs unless otypes is set'')
          else
            (let grid_center = map centroid grid_cells;
                 center_x = map fst (take (nat cols) grid_center);
                 center_y = map snd (every_nth (nat cols) grid_center)
             in frames_loop (frame_profile speed_method center_x center_y fwhm rows cols)
                  data_grouped_by_frame))"

section \<open>Closed forms\<close>

text \<open>
  The definitions of this section are not functions of the module: they name what its
  functions compute on finite inputs, and the lemmas below prove that they do.

  The value of the kernel for a finite distance \<open>d\<close> and \<open>fwhm \<noteq> 0\<close>:
\<close>

definition sigma_of :: "real \<Rightarrow> real" where
  "sigma_of fwhm = fwhm / (2 * sqrt (2 * ln 2))"

definition gauss :: "real \<Rightarrow> real \<Rightarrow> real" where
  "gauss fwhm d = 1 / (sigma_of fwhm * sqrt (2 * pi)) * exp (- (d\<^sup>2) / (2 * (sigma_of fwhm)\<^sup>2))"

text \<open>The weights of the agents of one frame at the cell with centre \<open>(cx, cy)\<close>.\<close>

definition cell_weights :: "row list \<Rightarrow> real \<Rightarrow> real \<Rightarrow> real \<Rightarrow> npfloat list" where
  "cell_weights frame_data cx cy fwhm =
     map (\<lambda>r. compute_gaussian_weights
                 (fsqrt (fadd (fsquare (Fin (cx - pos_x r))) (fsquare (Fin (cy - pos_y r))))) fwhm)
         frame_data"

text \<open>
  The numbers of coordinates \<open>np.arange\<close> returns for the two axes, the rectangle of
  row \<open>j\<close> and column \<open>i\<close>, and the centres of the columns and of the rows.
\<close>

definition x_count :: "real \<Rightarrow> real \<Rightarrow> real \<Rightarrow> nat" where
  "x_count min_x max_x grid_size = nat \<lceil>(max_x + grid_size - min_x) / grid_size\<rceil>"

definition y_count :: "real \<Rightarrow> real \<Rightarrow> real \<Rightarrow> nat" where
  "y_count min_y max_y grid_size = nat \<lceil>(min_y - grid_size - max_y) / (- grid_size)\<rceil>"

definition grid_rect :: "real \<Rightarrow> real \<Rightarrow> real \<Rightarrow> nat \<Rightarrow> nat \<Rightarrow> box" where
  "grid_rect min_x max_y grid_size j i =
     (min_x + real i * grid_size, max_y - real j * grid_size,
      min_x + (real i + 1) * grid_size, max_y - (real j + 1) * grid_size)"

definition grid_center_x :: "real \<Rightarrow> real \<Rightarrow> nat \<Rightarrow> real list" where
  "grid_center_x min_x grid_size n = map (\<lambda>i. min_x + (real i + 1 / 2) * grid_size) [0..<n]"

definition grid_center_y :: "real \<Rightarrow> real \<Rightarrow> nat \<Rightarrow> real list" where
  "grid_center_y max_y grid_size n = map (\<lambda>j. max_y - (real j + 1 / 2) * grid_size) [0..<n]"

text \<open>
  The order in which the frame numbers first occur in the table, which the specification
  of the module asks the result to follow.
\<close>

fun spec_first_encountered_order :: "int list \<Rightarrow> int list" where
  "spec_first_encountered_order [] = []"
| "spec_first_encountered_order (f # fs) =
     f # filter (\<lambda>g. g \<noteq> f) (spec_first_encountered_order fs)"

section \<open>Lemmas\<close>

subsection \<open>Sums of \<open>npfloat\<close> values\<close>

lemma fadd_commute: "fadd a b = fadd b a"
  by (cases a; cases b; simp)

lemma fadd_assoc: "fadd (fadd a b) c = fadd a (fadd b c)"
  by (cases a; cases b; cases c; simp)

lemma fadd_left_commute: "fadd a (fadd b c) = fadd b (fadd a c)"
  by (cases a; cases b; cases c; simp)

lemma fadd_zero [simp]: "fadd (Fin 0) a = a" "fadd a (Fin 0) = a"
  by (cases a; simp)+

lemma fsum_append: "fsum (xs @ ys) = fadd (fsum xs) (fsum ys)"
  by (induction xs) (simp_all add: fadd_assoc)

lemma fsum_mset: "mset xs = mset ys \<Longrightarrow> fsum xs = fsum ys"
proof (induction xs arbitrary: ys)
  case Nil
  then show ?case by simp
next
  case (Cons x xs)
  then have "x \<in> set ys" by (metis list.set_intros(1) mset_eq_setD)
  then obtain as bs where ys: "ys = as @ x # bs" by (meson split_list)
  with Cons.prems have "mset xs = mset (as @ bs)" by simp
  then have "fsum xs = fsum (as @ bs)" by (rule Cons.IH)
  then show ?case by (simp add: ys fsum_append fadd_left_commute)
qed

subsection \<open>The kernel on finite distances\<close>

lemma sqrt_2ln2_pos: "0 < sqrt (2 * ln (2::real))"
  by simp

lemma sigma_of_eq_0 [simp]: "sigma_of fwhm = 0 \<longleftrightarrow> fwhm = 0"
  by (simp add: sigma_of_def)

lemma weights_fin:
  assumes "fwhm \<noteq> 0"
  shows "compute_gaussian_weights (Fin d) fwhm = Fin (gauss fwhm d)"
  using assms
  by (simp add: compute_gaussian_weights_def gauss_def sigma_of_def fsquare_def Let_def power2_eq_square)

lemma weights_zero_fwhm: "compute_gaussian_weights (Fin d) 0 = NaN"
  by (simp add: compute_gaussian_weights_def fsquare_def Let_def)

lemma gauss_nonzero: "fwhm \<noteq> 0 \<Longrightarrow> gauss fwhm d \<noteq> 0"
  by (simp add: gauss_def)

lemma gauss_sign: "0 < fwhm \<Longrightarrow> 0 < gauss fwhm d" "fwhm < 0 \<Longrightarrow> gauss fwhm d < 0"
  by (simp_all add: gauss_def sigma_of_def zero_less_mult_iff mult_less_0_iff divide_less_0_iff zero_less_divide_iff)

lemma gauss_neg: "gauss (- fwhm) d = - gauss fwhm d"
  by (simp add: gauss_def sigma_of_def)

lemma dist_fin: "fsqrt (fadd (fsquare (Fin a)) (fsquare (Fin b))) = Fin (sqrt (a\<^sup>2 + b\<^sup>2))"
  by (simp add: fsquare_def power2_eq_square not_less)

subsection \<open>The cells of the weighted profile\<close>

lemma zip_map_same: "zip (map p xs) (map q xs) = map (\<lambda>r. (p r, q r)) xs"
  by (induction xs) simp_all

lemma weight_tensor_nth:
  assumes "j < length center_x" "i < length center_y"
  shows "gaussian_weight_tensor frame_data center_x center_y fwhm ! j ! i
         = cell_weights frame_data (center_x ! j) (center_y ! i) fwhm"
  using assms
  by (simp add: gaussian_weight_tensor_def distance_tensor_def subtract_outer_def
      cell_weights_def Let_def zip_map_same o_def)

lemma weight_tensor_length:
  "length (gaussian_weight_tensor frame_data center_x center_y fwhm) = length center_x"
  "j < length center_x \<Longrightarrow>
     length (gaussian_weight_tensor frame_data center_x center_y fwhm ! j) = length center_y"
  by (simp_all add: gaussian_weight_tensor_def distance_tensor_def subtract_outer_def Let_def)


lemma profile_nth:
  assumes "i < length center_y" "j < length center_x"
  shows "compute_gaussian_weighted_speed_profile frame_data center_x center_y fwhm ! i ! j
         = tensordot_cell (normalize_cell (cell_weights frame_data (center_x ! j) (center_y ! i) fwhm))
             (map speed frame_data)"
  using assms
  by (simp add: compute_gaussian_weighted_speed_profile_def transpose_T_def Let_def
      normalize_weights_def weight_tensor_length weight_tensor_nth)

lemma profile_shape:
  "length (compute_gaussian_weighted_speed_profile frame_data center_x center_y fwhm) = length center_y"
  "i < length center_y \<Longrightarrow>
    length (compute_gaussian_weighted_speed_profile frame_data center_x center_y fwhm ! i) = length center_x"
  by (simp_all add: compute_gaussian_weighted_speed_profile_def transpose_T_def Let_def)

lemma cell_weights_fin:
  assumes "fwhm \<noteq> 0"
  shows "cell_weights frame_data cx cy fwhm
         = map (\<lambda>r. Fin (gauss fwhm (sqrt ((cx - pos_x r)\<^sup>2 + (cy - pos_y r)\<^sup>2)))) frame_data"
  using assms by (simp add: cell_weights_def dist_fin weights_fin)

lemma cell_weights_zero_fwhm:
  "cell_weights frame_data cx cy 0 = map (\<lambda>r. NaN) frame_data"
  by (simp add: cell_weights_def dist_fin weights_zero_fwhm)

lemma fsum_Fin: "fsum (map (\<lambda>r. Fin (g r)) xs) = Fin (sum_list (map g xs))"
  by (induction xs) simp_all

lemma fsum_NaN: "xs \<noteq> [] \<Longrightarrow> fsum (map (\<lambda>r. NaN) xs) = NaN"
  by (cases xs) simp_all

lemma tensordot_normalize_fin:
  assumes "sum_list (map g xs) \<noteq> 0"
  shows "tensordot_cell (normalize_cell (map (\<lambda>r. Fin (g r)) xs)) (map v xs)
         = Fin (sum_list (map (\<lambda>r. g r / sum_list (map g xs) * v r) xs))"
proof -
  have "map2 fmul (normalize_cell (map (\<lambda>r. Fin (g r)) xs)) (map Fin (map v xs))
        = map (\<lambda>r. Fin (g r / sum_list (map g xs) * v r)) xs"
    using assms by (simp add: normalize_cell_def fsum_Fin zip_map_same o_def)
  then show ?thesis by (simp add: tensordot_cell_def fsum_Fin)
qed

subsection \<open>Sums of weights of one sign\<close>

lemma sum_list_pos_strict:
  fixes g :: "'a \<Rightarrow> real"
  assumes "xs \<noteq> []" "\<And>x. x \<in> set xs \<Longrightarrow> 0 < g x"
  shows "0 < sum_list (map g xs)"
  using assms
proof (induction xs)
  case Nil
  then show ?case by simp
next
  case (Cons a xs)
  have "0 \<le> sum_list (map g xs)"
    by (rule sum_list_nonneg) (use Cons.prems in \<open>auto intro: less_imp_le\<close>)
  moreover have "0 < g a" using Cons.prems by simp
  ultimately show ?case by simp
qed

lemma sum_list_gauss_nonzero:
  assumes "fwhm \<noteq> 0" "xs \<noteq> []"
  shows "sum_list (map (\<lambda>r. gauss fwhm (d r)) xs) \<noteq> 0"
proof (cases "0 < fwhm")
  case True
  then have "0 < sum_list (map (\<lambda>r. gauss fwhm (d r)) xs)"
    using assms(2) by (intro sum_list_pos_strict) (simp_all add: gauss_sign)
  then show ?thesis by simp
next
  case False
  with assms(1) have neg: "fwhm < 0" by simp
  have "0 < sum_list (map (\<lambda>r. - gauss fwhm (d r)) xs)"
    using assms(2) neg by (intro sum_list_pos_strict) (simp_all add: gauss_sign)
  also have "sum_list (map (\<lambda>r. - gauss fwhm (d r)) xs) = - sum_list (map (\<lambda>r. gauss fwhm (d r)) xs)"
    by (induction xs) simp_all
  finally show ?thesis by simp
qed

lemma gauss_ratio_pos:
  assumes "fwhm \<noteq> 0" "xs \<noteq> []"
  shows "0 < gauss fwhm (d r) / sum_list (map (\<lambda>r. gauss fwhm (d r)) xs)"
proof (cases "0 < fwhm")
  case True
  then have "0 < sum_list (map (\<lambda>r. gauss fwhm (d r)) xs)"
    using assms(2) by (intro sum_list_pos_strict) (simp_all add: gauss_sign)
  with True show ?thesis by (simp add: gauss_sign)
next
  case False
  with assms(1) have neg: "fwhm < 0" by simp
  have "0 < sum_list (map (\<lambda>r. - gauss fwhm (d r)) xs)"
    using assms(2) neg by (intro sum_list_pos_strict) (simp_all add: gauss_sign)
  also have "sum_list (map (\<lambda>r. - gauss fwhm (d r)) xs) = - sum_list (map (\<lambda>r. gauss fwhm (d r)) xs)"
    by (induction xs) simp_all
  finally have "sum_list (map (\<lambda>r. gauss fwhm (d r)) xs) < 0" by simp
  with neg show ?thesis by (simp add: gauss_sign divide_neg_neg)
qed

lemma sum_list_divide_const:
  fixes g :: "'a \<Rightarrow> real"
  shows "sum_list (map (\<lambda>r. g r / c) xs) = sum_list (map g xs) / c"
  by (induction xs) (simp_all add: add_divide_distrib)

lemma sum_list_times_const:
  fixes g :: "'a \<Rightarrow> real"
  shows "sum_list (map (\<lambda>r. g r * c) xs) = sum_list (map g xs) * c"
  by (induction xs) (simp_all add: distrib_right)

subsection \<open>The coordinates and the cells of the grid\<close>


lemma grid_rows_eq:
  fixes min_x max_y grid_size :: real
  defines "xs \<equiv> \<lambda>n. map (\<lambda>i. min_x + real i * grid_size) [0..<n]"
    and "ys \<equiv> \<lambda>n. map (\<lambda>i. max_y + real i * (- grid_size)) [0..<n]"
  shows "map (\<lambda>j. map (\<lambda>i. (xs nx ! i, ys ny ! j, xs nx ! (i + 1), ys ny ! (j + 1)))
                       [0..<nx - 1]) [0..<ny - 1]
         = map (\<lambda>j. map (grid_rect min_x max_y grid_size j) [0..<nx - 1]) [0..<ny - 1]"
proof (rule map_cong)
  show "[0..<ny - 1] = [0..<ny - 1]" by simp
next
  fix j assume "j \<in> set [0..<ny - 1]"
  then have j: "j < ny" "j + 1 < ny" by auto
  show "map (\<lambda>i. (xs nx ! i, ys ny ! j, xs nx ! (i + 1), ys ny ! (j + 1))) [0..<nx - 1]
        = map (grid_rect min_x max_y grid_size j) [0..<nx - 1]"
  proof (rule map_cong)
    show "[0..<nx - 1] = [0..<nx - 1]" by simp
  next
    fix i assume "i \<in> set [0..<nx - 1]"
    then have i: "i < nx" "i + 1 < nx" by auto
    show "(xs nx ! i, ys ny ! j, xs nx ! (i + 1), ys ny ! (j + 1))
          = grid_rect min_x max_y grid_size j i"
      using i j by (simp add: xs_def ys_def grid_rect_def algebra_simps)
  qed
qed

lemma get_grid_cells_nonzero:
  assumes "bounds walkable_area = (min_x, min_y, max_x, max_y)" and "grid_size \<noteq> 0"
  shows "get_grid_cells walkable_area grid_size =
         Inr (concat (map (\<lambda>j. map (grid_rect min_x max_y grid_size j)
                                   [0..<x_count min_x max_x grid_size - 1])
                          [0..<y_count min_y max_y grid_size - 1]),
              int (y_count min_y max_y grid_size) - 1,
              int (x_count min_x max_x grid_size) - 1)"
proof -
  have ax: "arange min_x (max_x + grid_size) grid_size
            = Inr (map (\<lambda>i. min_x + real i * grid_size) [0..<x_count min_x max_x grid_size])"
    using assms(2) by (simp only: arange_def x_count_def if_False)
  have "- grid_size \<noteq> 0" using assms(2) by simp
  then have ay: "arange max_y (min_y - grid_size) (- grid_size)
            = Inr (map (\<lambda>i. max_y + real i * (- grid_size)) [0..<y_count min_y max_y grid_size])"
    by (simp only: arange_def y_count_def if_False)
  show ?thesis
    unfolding get_grid_cells_def assms(1)
    by (simp only: prod.case ax ay sum.case grid_rows_eq length_map length_upt diff_zero)
qed

lemma x_count_eq:
  assumes "0 < grid_size" and "min_x \<le> max_x"
  shows "int (x_count min_x max_x grid_size) - 1 = \<lceil>(max_x - min_x) / grid_size\<rceil>"
proof -
  have "(max_x + grid_size - min_x) / grid_size = (max_x - min_x) / grid_size + 1"
    using assms by (simp add: field_simps)
  moreover have "0 \<le> (max_x - min_x) / grid_size" using assms by simp
  then have "0 \<le> \<lceil>(max_x - min_x) / grid_size\<rceil>"
    by (simp add: zero_le_ceiling)
  ultimately show ?thesis by (simp add: x_count_def)
qed

lemma y_count_eq:
  assumes "0 < grid_size" and "min_y \<le> max_y"
  shows "int (y_count min_y max_y grid_size) - 1 = \<lceil>(max_y - min_y) / grid_size\<rceil>"
proof -
  have "(min_y - grid_size - max_y) / (- grid_size) = (max_y - min_y) / grid_size + 1"
    using assms by (simp add: field_simps)
  moreover have "0 \<le> (max_y - min_y) / grid_size" using assms by simp
  then have "0 \<le> \<lceil>(max_y - min_y) / grid_size\<rceil>"
    by (simp add: zero_le_ceiling)
  ultimately show ?thesis by (simp add: y_count_def)
qed


lemma length_concat_grid:
  "length (concat (map (\<lambda>j. map (f j) [0..<c]) [0..<r])) = r * c"
  by (induction r) simp_all

lemma nth_concat_grid:
  assumes "j < r" and "i < c"
  shows "concat (map (\<lambda>j. map (f j) [0..<c]) [0..<r]) ! (j * c + i) = f j i"
  using assms
proof (induction r)
  case 0
  then show ?case by simp
next
  case (Suc r)
  show ?case
  proof (cases "j < r")
    case True
    then have "j * c + i < r * c"
      using Suc.prems(2)
      by (metis add_less_cancel_left less_le_trans mult_Suc mult_le_mono1 Suc_leI add.commute)
    then show ?thesis using Suc True by (simp add: nth_append length_concat_grid)
  next
    case False
    with Suc.prems have "j = r" by simp
    then show ?thesis using Suc.prems by (simp add: nth_append length_concat_grid)
  qed
qed

lemma centroid_grid_rect:
  "centroid (grid_rect min_x max_y grid_size j i)
   = (min_x + (real i + 1 / 2) * grid_size, max_y - (real j + 1 / 2) * grid_size)"
  by (simp add: centroid_def grid_rect_def field_simps)

lemma take_first_row:
  assumes "0 < r"
  shows "take c (map h (concat (map (\<lambda>j. map (f j) [0..<c]) [0..<r])))
         = map (\<lambda>i. h (f 0 i)) [0..<c]"
proof (rule nth_equalityI)
  show "length (take c (map h (concat (map (\<lambda>j. map (f j) [0..<c]) [0..<r]))))
        = length (map (\<lambda>i. h (f 0 i)) [0..<c])"
    using assms by (simp add: length_concat_grid)
next
  fix i assume "i < length (take c (map h (concat (map (\<lambda>j. map (f j) [0..<c]) [0..<r]))))"
  then have i: "i < c" by simp
  have "c \<le> r * c" using assms by (cases r) simp_all
  with i have lt: "i < r * c" by (rule less_le_trans)
  have "concat (map (\<lambda>j. map (f j) [0..<c]) [0..<r]) ! i = f 0 i"
    using nth_concat_grid [of 0 r i c f] assms i by simp
  then show "take c (map h (concat (map (\<lambda>j. map (f j) [0..<c]) [0..<r]))) ! i
             = map (\<lambda>i. h (f 0 i)) [0..<c] ! i"
    using i lt by (simp add: length_concat_grid)
qed

lemma every_nth_first_column:
  assumes "0 < c"
  shows "every_nth c (map h (concat (map (\<lambda>j. map (f j) [0..<c]) [0..<r])))
         = map (\<lambda>j. h (f j 0)) [0..<r]"
proof -
  have len: "(r * c + c - Suc 0) div c = r"
  proof -
    have "r * c + c - Suc 0 = r * c + (c - 1)" using assms by simp
    moreover have "(r * c + (c - 1)) div c = r + (c - 1) div c"
      using assms by (intro div_mult_self3) simp
    ultimately show ?thesis using assms by simp
  qed
  have "map (\<lambda>k. map h (concat (map (\<lambda>j. map (f j) [0..<c]) [0..<r])) ! (k * c)) [0..<r]
        = map (\<lambda>j. h (f j 0)) [0..<r]"
  proof (rule map_cong)
    fix k assume "k \<in> set [0..<r]"
    then have k: "k < r" by simp
    then have "k * c < r * c" using assms by simp
    have "concat (map (\<lambda>j. map (f j) [0..<c]) [0..<r]) ! (k * c) = f k 0"
      using nth_concat_grid [of k r 0 c f] k assms by simp
    then show "map h (concat (map (\<lambda>j. map (f j) [0..<c]) [0..<r])) ! (k * c) = h (f k 0)"
      using \<open>k * c < r * c\<close> by (simp add: length_concat_grid)
  qed simp
  then show ?thesis by (simp add: every_nth_def length_concat_grid len)
qed

subsection \<open>Reshaping and the loop over the frames\<close>

lemma rechunk:
  assumes "\<And>row. row \<in> set a \<Longrightarrow> length row = c"
  shows "map (\<lambda>i. take c (drop (i * c) (concat a))) [0..<length a] = a"
  using assms
proof (induction a)
  case Nil
  then show ?case by simp
next
  case (Cons x xs)
  have x: "length x = c" using Cons.prems by simp
  have "map (\<lambda>i. take c (drop (i * c) (concat (x # xs)))) [0..<length (x # xs)]
        = take c (x @ concat xs)
          # map (\<lambda>i. take c (drop (Suc i * c) (x @ concat xs))) [0..<length xs]"
    by (simp add: upt_conv_Cons map_Suc_upt [symmetric] del: upt_Suc)
  also have "take c (x @ concat xs) = x" using x by simp
  also have "map (\<lambda>i. take c (drop (Suc i * c) (x @ concat xs))) [0..<length xs]
             = map (\<lambda>i. take c (drop (i * c) (concat xs))) [0..<length xs]"
    using x by simp
  also have "\<dots> = xs" using Cons by simp
  finally show ?case .
qed

lemma length_concat_const:
  assumes "\<And>row. row \<in> set a \<Longrightarrow> length row = c"
  shows "length (concat a) = length a * c"
  using assms by (induction a) simp_all

lemma reshape_same_shape:
  assumes "\<And>row. row \<in> set a \<Longrightarrow> length row = c"
  shows "reshape (int (length a)) (int c) a = Inr a"
  using rechunk [OF assms] length_concat_const [OF assms]
  by (simp add: reshape_def Let_def)

lemma profile_rows:
  assumes "row \<in> set (compute_gaussian_weighted_speed_profile frame_data center_x center_y fwhm)"
  shows "length row = length center_x"
  using assms
  by (auto simp add: compute_gaussian_weighted_speed_profile_def transpose_T_def Let_def)

lemma frame_profile_ok:
  "frame_profile speed_method center_x center_y fwhm (int (length center_y)) (int (length center_x))
     frame_data
   = Inr (compute_gaussian_weighted_speed_profile frame_data center_x center_y fwhm)"
  using reshape_same_shape [of "compute_gaussian_weighted_speed_profile frame_data center_x center_y fwhm"
      "length center_x", OF profile_rows]
  by (simp add: frame_profile_def profile_shape)

lemma frames_loop_ok:
  assumes "\<And>frame_data. body frame_data = Inr (g frame_data)"
  shows "frames_loop body groups = Inr (map (\<lambda>p. g (snd p)) groups)"
  by (induction groups) (auto simp add: assms)

subsection \<open>Frames with one agent and with none\<close>

lemma profile_eq_map:
  "compute_gaussian_weighted_speed_profile frame_data center_x center_y fwhm
   = map (\<lambda>cy. map (\<lambda>cx. tensordot_cell (normalize_cell (cell_weights frame_data cx cy fwhm))
                                 (map speed frame_data)) center_x) center_y"
  (is "?L = ?R")
proof (rule nth_equalityI)
  show "length ?L = length ?R" by (simp add: profile_shape)
next
  fix i assume "i < length ?L"
  then have i: "i < length center_y" by (simp add: profile_shape)
  have "?L ! i = map (\<lambda>cx. tensordot_cell (normalize_cell
                   (cell_weights frame_data cx (center_y ! i) fwhm)) (map speed frame_data)) center_x"
  proof (rule nth_equalityI)
    show "length (?L ! i) = length (map (\<lambda>cx. tensordot_cell (normalize_cell
                   (cell_weights frame_data cx (center_y ! i) fwhm)) (map speed frame_data)) center_x)"
      using i by (simp add: profile_shape)
  next
    fix j assume "j < length (?L ! i)"
    then have j: "j < length center_x" using i by (simp add: profile_shape)
    show "?L ! i ! j = map (\<lambda>cx. tensordot_cell (normalize_cell
                   (cell_weights frame_data cx (center_y ! i) fwhm)) (map speed frame_data)) center_x ! j"
      using i j by (simp add: profile_nth)
  qed
  then show "?L ! i = ?R ! i" using i by simp
qed

lemma single_agent_profile:
  assumes "fwhm \<noteq> 0"
  shows "compute_gaussian_weighted_speed_profile [r] center_x center_y fwhm
         = map (\<lambda>cy. map (\<lambda>cx. Fin (speed r)) center_x) center_y"
proof -
  have "gauss fwhm d \<noteq> 0" for d using assms by (rule gauss_nonzero)
  then have c: "tensordot_cell (normalize_cell (cell_weights [r] cx cy fwhm)) (map speed [r])
             = Fin (speed r)" for cx cy
    using assms by (simp add: cell_weights_fin normalize_cell_def tensordot_cell_def)
  show ?thesis by (simp only: profile_eq_map c)
qed

lemma empty_frame_profile:
  "compute_gaussian_weighted_speed_profile [] center_x center_y fwhm
   = map (\<lambda>cy. map (\<lambda>cx. Fin 0) center_x) center_y"
proof -
  have c: "tensordot_cell (normalize_cell (cell_weights [] cx cy fwhm)) (map speed []) = Fin 0"
    for cx cy
    by (simp add: cell_weights_def normalize_cell_def tensordot_cell_def)
  show ?thesis by (simp only: profile_eq_map c)
qed

lemma zero_weights_cell:
  assumes "0 < n" and "length speeds = n"
  shows "tensordot_cell (normalize_cell (replicate n (Fin 0))) speeds = NaN"
proof -
  have s: "fsum (replicate n (Fin 0)) = Fin 0" by (induction n) simp_all
  have "map2 fmul (normalize_cell (replicate n (Fin 0))) (map Fin speeds) = replicate n NaN"
    using assms(2) by (simp add: normalize_cell_def s list_eq_iff_nth_eq)
  moreover have "fsum (replicate n NaN) = NaN" using assms(1) by (cases n) simp_all
  ultimately show ?thesis by (simp add: tensordot_cell_def)
qed

subsection \<open>The result of \<open>compute_speed_profile\<close>\<close>


lemma grid_cells_empty_iff:
  "concat (map (\<lambda>j. map (f j) [0..<c]) [0..<r]) = [] \<longleftrightarrow> r = 0 \<or> c = 0"
proof -
  have "length (concat (map (\<lambda>j. map (f j) [0..<c]) [0..<r])) = 0 \<longleftrightarrow> r = 0 \<or> c = 0"
    by (simp only: length_concat_grid mult_is_0)
  then show ?thesis by (simp only: length_0_conv)
qed


lemma compute_speed_profile_cells:
  assumes "bounds walkable_area = (min_x, min_y, max_x, max_y)" and "grid_size \<noteq> 0"
    and "2 \<le> x_count min_x max_x grid_size" and "2 \<le> y_count min_y max_y grid_size"
  shows "compute_speed_profile data walkable_area grid_size speed_method grid_intersections_area
           fill_value fwhm
         = Inr (map (\<lambda>p. compute_gaussian_weighted_speed_profile (snd p)
                            (grid_center_x min_x grid_size (x_count min_x max_x grid_size - 1))
                            (grid_center_y max_y grid_size (y_count min_y max_y grid_size - 1)) fwhm)
                    (groupby_frame data))"
proof -
  let ?c = "x_count min_x max_x grid_size - 1" and ?r = "y_count min_y max_y grid_size - 1"
  let ?cells = "concat (map (\<lambda>j. map (grid_rect min_x max_y grid_size j) [0..<?c]) [0..<?r])"
  let ?cx = "grid_center_x min_x grid_size ?c" and ?cy = "grid_center_y max_y grid_size ?r"
  have c: "0 < ?c" and r: "0 < ?r" using assms(3,4) by simp_all
  have cols: "int (x_count min_x max_x grid_size) - 1 = int ?c"
    and rows: "int (y_count min_y max_y grid_size) - 1 = int ?r"
    using assms(3,4) by simp_all
  have grid: "get_grid_cells walkable_area grid_size = Inr (?cells, int ?r, int ?c)"
    by (simp only: get_grid_cells_nonzero [OF assms(1,2)] cols rows)
  have ne: "?cells \<noteq> []"
    using c r by (simp only: grid_cells_empty_iff) simp
  have "take ?c (map centroid ?cells) = map (\<lambda>i. centroid (grid_rect min_x max_y grid_size 0 i)) [0..<?c]"
    using r by (rule take_first_row)
  then have cx: "map fst (take ?c (map centroid ?cells)) = ?cx"
    by (simp add: grid_center_x_def centroid_grid_rect o_def)
  have "every_nth ?c (map centroid ?cells)
        = map (\<lambda>j. centroid (grid_rect min_x max_y grid_size j 0)) [0..<?r]"
    using c by (rule every_nth_first_column)
  then have cy: "map snd (every_nth ?c (map centroid ?cells)) = ?cy"
    by (simp add: grid_center_y_def centroid_grid_rect o_def)
  have len: "int ?r = int (length ?cy)" "int ?c = int (length ?cx)"
    by (simp_all add: grid_center_x_def grid_center_y_def)
  have body: "frame_profile speed_method ?cx ?cy fwhm (int ?r) (int ?c) frame_data
              = Inr (compute_gaussian_weighted_speed_profile frame_data ?cx ?cy fwhm)"
    for frame_data
    by (simp only: len frame_profile_ok)
  have "compute_speed_profile data walkable_area grid_size speed_method grid_intersections_area
           fill_value fwhm
        = frames_loop (frame_profile speed_method ?cx ?cy fwhm (int ?r) (int ?c)) (groupby_frame data)"
    by (simp only: compute_speed_profile_def grid Let_def sum.case prod.case ne if_False
        nat_int cx cy)
  also have "\<dots> = Inr (map (\<lambda>p. compute_gaussian_weighted_speed_profile (snd p) ?cx ?cy fwhm)
                            (groupby_frame data))"
    using body by (rule frames_loop_ok)
  finally show ?thesis .
qed

subsection \<open>The order of the agents\<close>

lemma cell_value_fsum:
  "tensordot_cell (normalize_cell (map W frame_data)) (map v frame_data)
   = fsum (map (\<lambda>r. fmul (fdiv (W r) (fsum (map W frame_data))) (Fin (v r))) frame_data)"
  by (simp add: tensordot_cell_def normalize_cell_def zip_map_same o_def)

lemma mset_map_factor:
  assumes "mset (map t xs) = mset (map t ys)"
  shows "mset (map (\<lambda>r. G (t r)) xs) = mset (map (\<lambda>r. G (t r)) ys)"
proof -
  have "mset (map (\<lambda>r. G (t r)) zs) = image_mset G (mset (map t zs))" for zs
    by (simp add: multiset.map_comp o_def)
  then show ?thesis using assms by simp
qed

lemma cell_value_cell_weights:
  "tensordot_cell (normalize_cell (cell_weights frame_data cx cy fwhm)) (map speed frame_data)
   = fsum (map (\<lambda>r. fmul (fdiv (compute_gaussian_weights
                 (fsqrt (fadd (fsquare (Fin (cx - pos_x r))) (fsquare (Fin (cy - pos_y r))))) fwhm)
                 (fsum (cell_weights frame_data cx cy fwhm))) (Fin (speed r))) frame_data)"
  unfolding cell_weights_def by (rule cell_value_fsum)

lemma cell_value_mset:
  assumes "mset (map (\<lambda>r. (pos_x r, pos_y r, speed r)) frame_data)
           = mset (map (\<lambda>r. (pos_x r, pos_y r, speed r)) frame_data')"
  shows "tensordot_cell (normalize_cell (cell_weights frame_data cx cy fwhm)) (map speed frame_data)
         = tensordot_cell (normalize_cell (cell_weights frame_data' cx cy fwhm)) (map speed frame_data')"
proof -
  define W where "W = (\<lambda>p::real \<times> real \<times> real. compute_gaussian_weights
              (fsqrt (fadd (fsquare (Fin (cx - fst p))) (fsquare (Fin (cy - fst (snd p)))))) fwhm)"
  define S where "S = fsum (cell_weights frame_data cx cy fwhm)"
  define V where "V = (\<lambda>p::real \<times> real \<times> real. fmul (fdiv (W p) S) (Fin (snd (snd p))))"
  have cw: "cell_weights zs cx cy fwhm = map (\<lambda>r. W (pos_x r, pos_y r, speed r)) zs" for zs
    by (simp add: cell_weights_def W_def)
  have "mset (map (\<lambda>r. W (pos_x r, pos_y r, speed r)) frame_data)
        = mset (map (\<lambda>r. W (pos_x r, pos_y r, speed r)) frame_data')"
    using assms by (rule mset_map_factor)
  then have "fsum (cell_weights frame_data cx cy fwhm) = fsum (cell_weights frame_data' cx cy fwhm)"
    unfolding cw by (rule fsum_mset)
  then have S': "fsum (cell_weights frame_data' cx cy fwhm) = S" by (simp add: S_def)
  have val: "tensordot_cell (normalize_cell (cell_weights zs cx cy fwhm)) (map speed zs)
             = fsum (map (\<lambda>r. V (pos_x r, pos_y r, speed r)) zs)"
    if "fsum (cell_weights zs cx cy fwhm) = S" for zs
    using that by (simp add: cell_value_cell_weights V_def W_def)
  have "mset (map (\<lambda>r. V (pos_x r, pos_y r, speed r)) frame_data)
        = mset (map (\<lambda>r. V (pos_x r, pos_y r, speed r)) frame_data')"
    using assms by (rule mset_map_factor)
  then have "fsum (map (\<lambda>r. V (pos_x r, pos_y r, speed r)) frame_data)
             = fsum (map (\<lambda>r. V (pos_x r, pos_y r, speed r)) frame_data')"
    by (rule fsum_mset)
  then show ?thesis
    using val [of frame_data] val [of frame_data'] S' by (simp add: S_def)
qed

subsection \<open>Grids with and without cells\<close>

lemma x_count_ge_2_iff:
  assumes "0 < grid_size" and "min_x \<le> max_x"
  shows "2 \<le> x_count min_x max_x grid_size \<longleftrightarrow> min_x < max_x"
proof -
  have "int (x_count min_x max_x grid_size) = \<lceil>(max_x - min_x) / grid_size\<rceil> + 1"
    using x_count_eq [OF assms] by simp
  moreover have "0 < \<lceil>(max_x - min_x) / grid_size\<rceil> \<longleftrightarrow> min_x < max_x"
    using assms by (simp add: zero_less_divide_iff)
  ultimately show ?thesis by linarith
qed

lemma y_count_ge_2_iff:
  assumes "0 < grid_size" and "min_y \<le> max_y"
  shows "2 \<le> y_count min_y max_y grid_size \<longleftrightarrow> min_y < max_y"
proof -
  have "int (y_count min_y max_y grid_size) = \<lceil>(max_y - min_y) / grid_size\<rceil> + 1"
    using y_count_eq [OF assms] by simp
  moreover have "0 < \<lceil>(max_y - min_y) / grid_size\<rceil> \<longleftrightarrow> min_y < max_y"
    using assms by (simp add: zero_less_divide_iff)
  ultimately show ?thesis by linarith
qed

lemma x_count_minus_1:
  assumes "0 < grid_size" and "min_x \<le> max_x"
  shows "x_count min_x max_x grid_size - 1 = nat \<lceil>(max_x - min_x) / grid_size\<rceil>"
  using x_count_eq [OF assms] by linarith

lemma y_count_minus_1:
  assumes "0 < grid_size" and "min_y \<le> max_y"
  shows "y_count min_y max_y grid_size - 1 = nat \<lceil>(max_y - min_y) / grid_size\<rceil>"
  using y_count_eq [OF assms] by linarith

lemma get_grid_cells_pos:
  assumes "bounds walkable_area = (min_x, min_y, max_x, max_y)"
    and "min_x \<le> max_x" and "min_y \<le> max_y" and "0 < grid_size"
  shows "get_grid_cells walkable_area grid_size =
         Inr (concat (map (\<lambda>j. map (grid_rect min_x max_y grid_size j)
                                   [0..<nat \<lceil>(max_x - min_x) / grid_size\<rceil>])
                          [0..<nat \<lceil>(max_y - min_y) / grid_size\<rceil>]),
              \<lceil>(max_y - min_y) / grid_size\<rceil>, \<lceil>(max_x - min_x) / grid_size\<rceil>)"
proof -
  have nz: "grid_size \<noteq> 0" using assms(4) by simp
  show ?thesis
    by (simp only: get_grid_cells_nonzero [OF assms(1) nz]
        x_count_minus_1 [OF assms(4,2)] y_count_minus_1 [OF assms(4,3)]
        x_count_eq [OF assms(4,2)] y_count_eq [OF assms(4,3)])
qed

lemma y_count_neg:
  assumes "grid_size < 0" and "min_y \<le> max_y"
  shows "y_count min_y max_y grid_size \<le> 1"
proof -
  have "(min_y - grid_size - max_y) / (- grid_size) = (max_y - min_y) / grid_size + 1"
    using assms by (simp add: field_simps)
  moreover have "(max_y - min_y) / grid_size \<le> 0"
    using assms by (simp add: divide_le_0_iff)
  ultimately have "\<lceil>(min_y - grid_size - max_y) / (- grid_size)\<rceil> \<le> 1"
    by (simp add: ceiling_le_iff)
  then show ?thesis by (simp add: y_count_def)
qed



lemma compute_speed_profile_valid:
  assumes "bounds walkable_area = (min_x, min_y, max_x, max_y)"
    and "min_x < max_x" and "min_y < max_y" and "0 < grid_size"
  shows "compute_speed_profile data walkable_area grid_size speed_method grid_intersections_area
           fill_value fwhm
         = Inr (map (\<lambda>p. compute_gaussian_weighted_speed_profile (snd p)
                            (grid_center_x min_x grid_size (nat \<lceil>(max_x - min_x) / grid_size\<rceil>))
                            (grid_center_y max_y grid_size (nat \<lceil>(max_y - min_y) / grid_size\<rceil>))
                            fwhm)
                    (groupby_frame data))"
proof -
  have le: "min_x \<le> max_x" "min_y \<le> max_y" using assms(2,3) by simp_all
  have nz: "grid_size \<noteq> 0" using assms(4) by simp
  have x: "2 \<le> x_count min_x max_x grid_size"
    using x_count_ge_2_iff [OF assms(4) le(1)] assms(2) by simp
  have y: "2 \<le> y_count min_y max_y grid_size"
    using y_count_ge_2_iff [OF assms(4) le(2)] assms(3) by simp
  show ?thesis
    by (simp only: compute_speed_profile_cells [OF assms(1) nz x y]
        x_count_minus_1 [OF assms(4) le(1)] y_count_minus_1 [OF assms(4) le(2)])
qed

subsection \<open>The errors of \<open>compute_speed_profile\<close>\<close>

lemma frames_loop_error:
  assumes "frames_loop body groups = Inl e"
  shows "\<exists>frame_data. body frame_data = Inl e"
  using assms
  by (induction groups) (auto split: sum.splits)

lemma frame_profile_error:
  assumes "frame_profile speed_method center_x center_y fwhm rows cols frame_data = Inl e"
  shows "e = ValueError ''cannot reshape array''"
  using assms by (simp add: frame_profile_def reshape_def Let_def split: if_splits)

lemma get_grid_cells_error:
  assumes "get_grid_cells walkable_area grid_size = Inl e"
  shows "e = ZeroDivisionError"
  using assms
  by (auto simp add: get_grid_cells_def arange_def split: prod.splits if_splits)

lemma compute_speed_profile_error:
  assumes "compute_speed_profile data walkable_area grid_size speed_method
             grid_intersections_area fill_value fwhm = Inl e"
  shows "e = ZeroDivisionError
         \<or> e = ValueError ''cannot call vectorize on size 0 inputs unless otypes is set''
         \<or> e = ValueError ''cannot reshape array''"
proof (cases "get_grid_cells walkable_area grid_size")
  case (Inl e')
  then have "e = e'" using assms by (simp add: compute_speed_profile_def)
  then show ?thesis using get_grid_cells_error [OF Inl] by simp
next
  case (Inr g)
  obtain grid_cells rows cols where g: "g = (grid_cells, rows, cols)" by (cases g) auto
  show ?thesis
  proof (cases "grid_cells = []")
    case True
    then show ?thesis using assms Inr g by (simp add: compute_speed_profile_def)
  next
    case False
    then obtain cx cy where
      "frames_loop (frame_profile speed_method cx cy fwhm rows cols) (groupby_frame data) = Inl e"
      using assms Inr g by (simp add: compute_speed_profile_def Let_def)
    then obtain frame_data where
      "frame_profile speed_method cx cy fwhm rows cols frame_data = Inl e"
      using frames_loop_error by blast
    then show ?thesis using frame_profile_error by blast
  qed
qed

lemma frame_profile_speed_method:
  "frame_profile speed_method center_x center_y fwhm rows cols
   = frame_profile speed_method' center_x center_y fwhm rows cols"
  by (rule ext) (simp add: frame_profile_def)

subsection \<open>Negative and zero \<open>fwhm\<close>\<close>

lemma sum_list_uminus:
  fixes g :: "'a \<Rightarrow> real"
  shows "sum_list (map (\<lambda>r. - g r) xs) = - sum_list (map g xs)"
  by (induction xs) simp_all

lemma cell_value_neg_fwhm:
  "tensordot_cell (normalize_cell (cell_weights frame_data cx cy (- fwhm))) (map speed frame_data)
   = tensordot_cell (normalize_cell (cell_weights frame_data cx cy fwhm)) (map speed frame_data)"
proof (cases "fwhm = 0 \<or> frame_data = []")
  case True
  then show ?thesis by (auto simp add: cell_weights_def)
next
  case False
  then have nz: "fwhm \<noteq> 0" "- fwhm \<noteq> 0" and ne: "frame_data \<noteq> []" by simp_all
  let ?g = "\<lambda>r. gauss fwhm (sqrt ((cx - pos_x r)\<^sup>2 + (cy - pos_y r)\<^sup>2))"
  have S: "sum_list (map ?g frame_data) \<noteq> 0"
    using nz(1) ne by (rule sum_list_gauss_nonzero)
  then have S': "sum_list (map (\<lambda>r. - ?g r) frame_data) \<noteq> 0"
    by (simp add: sum_list_uminus)
  have "tensordot_cell (normalize_cell (cell_weights frame_data cx cy (- fwhm))) (map speed frame_data)
        = Fin (sum_list (map (\<lambda>r. - ?g r / sum_list (map (\<lambda>r. - ?g r) frame_data) * speed r)
                 frame_data))"
    using tensordot_normalize_fin [OF S', of speed]
    by (simp add: cell_weights_fin [OF nz(2)] gauss_neg)
  also have "\<dots> = Fin (sum_list (map (\<lambda>r. ?g r / sum_list (map ?g frame_data) * speed r)
                 frame_data))"
    by (simp add: sum_list_uminus)
  also have "\<dots> = tensordot_cell (normalize_cell (cell_weights frame_data cx cy fwhm))
                     (map speed frame_data)"
    using tensordot_normalize_fin [OF S, of speed]
    by (simp add: cell_weights_fin [OF nz(1)])
  finally show ?thesis .
qed

lemma frame_profile_neg_fwhm:
  "frame_profile speed_method center_x center_y (- fwhm) rows cols
   = frame_profile speed_method center_x center_y fwhm rows cols"
  by (rule ext) (simp add: frame_profile_def profile_eq_map cell_value_neg_fwhm)

lemma compute_speed_profile_neg_fwhm:
  "compute_speed_profile data walkable_area grid_size speed_method grid_intersections_area
     fill_value (- fwhm)
   = compute_speed_profile data walkable_area grid_size speed_method grid_intersections_area
     fill_value fwhm"
  unfolding compute_speed_profile_def by (simp only: frame_profile_neg_fwhm)

lemma cell_value_zero_fwhm:
  assumes "frame_data \<noteq> []"
  shows "tensordot_cell (normalize_cell (cell_weights frame_data cx cy 0)) (map speed frame_data)
         = NaN"
proof -
  have "map2 fmul (normalize_cell (map (\<lambda>r. NaN) frame_data)) (map Fin (map speed frame_data))
        = map (\<lambda>r. NaN) frame_data"
    by (simp add: normalize_cell_def zip_map_same o_def)
  then show ?thesis
    using assms by (simp add: tensordot_cell_def cell_weights_zero_fwhm fsum_NaN)
qed

lemma unit_square_one_cell:
  "compute_speed_profile data \<lparr>bounds = (0, 0, 1, 1)\<rparr> 1 speed_method grid_intersections_area
     fill_value fwhm
   = Inr (map (\<lambda>p. compute_gaussian_weighted_speed_profile (snd p) [1 / 2] [1 / 2] fwhm)
              (groupby_frame data))"
  using compute_speed_profile_valid [of "\<lparr>bounds = (0, 0, 1, 1)\<rparr>" 0 0 1 1 1 data speed_method
      grid_intersections_area fill_value fwhm]
  by (simp add: grid_center_x_def grid_center_y_def)

subsection \<open>The order of the frames\<close>

lemma groupby_frame_sorted:
  "map (\<lambda>p. F (snd p)) (groupby_frame data)
   = map (\<lambda>f. F (filter (\<lambda>r. frame_id r = f) data)) (sorted_list_of_set (frame_id ` set data))"
proof -
  have "sort (remdups (map frame_id data)) = sorted_list_of_set (frame_id ` set data)"
    by (simp add: sorted_list_of_set_sort_remdups [symmetric])
  then show ?thesis by (simp add: groupby_frame_def o_def)
qed

subsection \<open>What holds when no operation rounds\<close>

text \<open>
  The four lemmas of this subsection are statements about the model above, in which the
  arithmetic of finite values is exact. They say nothing about the last bits of a float64
  result: there a sum depends on the order of its terms, a quotient \<open>w / w\<close> can be
  \<open>NaN\<close> after an underflow, and \<open>np.arange\<close> counts its values from a rounded quotient.
\<close>

lemma single_agent_at_cell_center_exact:
  assumes "0 < fwhm" and "i < length center_y" and "j < length center_x"
    and "pos_x r = center_x ! j" and "pos_y r = center_y ! i"
  shows "compute_gaussian_weighted_speed_profile [r] center_x center_y fwhm ! i ! j = Fin (speed r)"
proof -
  have "fwhm \<noteq> 0" using assms(1) by simp
  then have "gauss fwhm 0 \<noteq> 0" by (rule gauss_nonzero)
  then show ?thesis
    using assms(2-5) \<open>fwhm \<noteq> 0\<close>
    by (simp add: profile_nth cell_weights_fin normalize_cell_def tensordot_cell_def)
qed

lemma cell_value_between_min_and_max_speed_exact:
  assumes "frame_data \<noteq> []" and "j < length center_x" and "i < length center_y"
    and "fsum (gaussian_weight_tensor frame_data center_x center_y fwhm ! j ! i) = Fin s"
    and "s \<noteq> 0"
  shows "\<exists>v. compute_gaussian_weighted_speed_profile frame_data center_x center_y fwhm ! i ! j = Fin v
           \<and> Min (speed ` set frame_data) \<le> v \<and> v \<le> Max (speed ` set frame_data)"
proof -
  let ?cx = "center_x ! j" and ?cy = "center_y ! i"
  let ?g = "\<lambda>r. gauss fwhm (sqrt ((?cx - pos_x r)\<^sup>2 + (?cy - pos_y r)\<^sup>2))"
  let ?S = "sum_list (map ?g frame_data)"
  let ?p = "\<lambda>r. ?g r / ?S"
  let ?lo = "Min (speed ` set frame_data)" and ?hi = "Max (speed ` set frame_data)"
  have "fwhm \<noteq> 0"
  proof
    assume "fwhm = 0"
    then have "fsum (gaussian_weight_tensor frame_data center_x center_y fwhm ! j ! i) = NaN"
      using assms(1-3) by (simp add: weight_tensor_nth cell_weights_zero_fwhm fsum_NaN)
    with assms(4) show False by simp
  qed
  then have S: "?S \<noteq> 0" using assms(1) by (rule sum_list_gauss_nonzero)
  have p_pos: "0 < ?p r" for r :: row
    using gauss_ratio_pos [OF \<open>fwhm \<noteq> 0\<close> assms(1),
        where d = "\<lambda>r. sqrt ((?cx - pos_x r)\<^sup>2 + (?cy - pos_y r)\<^sup>2)" and r = r]
    by simp
  have p_sum: "sum_list (map ?p frame_data) = 1"
    using S by (simp add: sum_list_divide_const)
  have val: "compute_gaussian_weighted_speed_profile frame_data center_x center_y fwhm ! i ! j
             = Fin (sum_list (map (\<lambda>r. ?p r * speed r) frame_data))"
    using assms(2,3) \<open>fwhm \<noteq> 0\<close> S
    by (simp add: profile_nth cell_weights_fin tensordot_normalize_fin)
  have "sum_list (map (\<lambda>r. ?p r * ?lo) frame_data) \<le> sum_list (map (\<lambda>r. ?p r * speed r) frame_data)"
  proof (rule sum_list_mono)
    fix r assume "r \<in> set frame_data"
    then have "?lo \<le> speed r" by simp
    then show "?p r * ?lo \<le> ?p r * speed r"
      by (rule mult_left_mono) (rule less_imp_le, rule p_pos)
  qed
  then have lo: "?lo \<le> sum_list (map (\<lambda>r. ?p r * speed r) frame_data)"
    by (simp only: sum_list_times_const p_sum mult_1)
  have "sum_list (map (\<lambda>r. ?p r * speed r) frame_data) \<le> sum_list (map (\<lambda>r. ?p r * ?hi) frame_data)"
  proof (rule sum_list_mono)
    fix r assume "r \<in> set frame_data"
    then have "speed r \<le> ?hi" by simp
    then show "?p r * speed r \<le> ?p r * ?hi"
      by (rule mult_left_mono) (rule less_imp_le, rule p_pos)
  qed
  then have hi: "sum_list (map (\<lambda>r. ?p r * speed r) frame_data) \<le> ?hi"
    by (simp only: sum_list_times_const p_sum mult_1)
  from val lo hi show ?thesis by blast
qed

lemma agent_order_independent_exact:
  assumes "mset (map (\<lambda>r. (pos_x r, pos_y r, speed r)) frame_data)
           = mset (map (\<lambda>r. (pos_x r, pos_y r, speed r)) frame_data')"
  shows "compute_gaussian_weighted_speed_profile frame_data center_x center_y fwhm
         = compute_gaussian_weighted_speed_profile frame_data' center_x center_y fwhm"
  by (simp only: profile_eq_map cell_value_mset [OF assms])

lemma grid_shape_exact:
  assumes "bounds walkable_area = (min_x, min_y, max_x, max_y)"
    and "min_x < max_x" and "min_y < max_y" and "0 < grid_size"
  shows "\<exists>grid_cells.
           get_grid_cells walkable_area grid_size
             = Inr (grid_cells, \<lceil>(max_y - min_y) / grid_size\<rceil>, \<lceil>(max_x - min_x) / grid_size\<rceil>)
         \<and> int (length grid_cells)
             = \<lceil>(max_y - min_y) / grid_size\<rceil> * \<lceil>(max_x - min_x) / grid_size\<rceil>
         \<and> grid_cells
             = concat (map (\<lambda>j. map (\<lambda>i. (min_x + real i * grid_size, max_y - real j * grid_size,
                                           min_x + (real i + 1) * grid_size,
                                           max_y - (real j + 1) * grid_size))
                                    [0..<nat \<lceil>(max_x - min_x) / grid_size\<rceil>])
                           [0..<nat \<lceil>(max_y - min_y) / grid_size\<rceil>])
         \<and> map centroid grid_cells
             = concat (map (\<lambda>j. map (\<lambda>i. (min_x + (real i + 1 / 2) * grid_size,
                                           max_y - (real j + 1 / 2) * grid_size))
                                    [0..<nat \<lceil>(max_x - min_x) / grid_size\<rceil>])
                           [0..<nat \<lceil>(max_y - min_y) / grid_size\<rceil>])"
proof -
  let ?rows = "\<lceil>(max_y - min_y) / grid_size\<rceil>" and ?cols = "\<lceil>(max_x - min_x) / grid_size\<rceil>"
  let ?cells = "concat (map (\<lambda>j. map (grid_rect min_x max_y grid_size j) [0..<nat ?cols])
                            [0..<nat ?rows])"
  have le: "min_x \<le> max_x" "min_y \<le> max_y" using assms(2,3) by simp_all
  have "0 \<le> (max_y - min_y) / grid_size" "0 \<le> (max_x - min_x) / grid_size"
    using assms(2-4) by simp_all
  then have pos: "0 \<le> ?rows" "0 \<le> ?cols"
    by (simp_all add: zero_le_ceiling)
  have 1: "get_grid_cells walkable_area grid_size = Inr (?cells, ?rows, ?cols)"
    using assms(1) le assms(4) by (rule get_grid_cells_pos)
  have 2: "int (length ?cells) = ?rows * ?cols"
    using pos by (simp add: length_concat_grid)
  have 3: "?cells = concat (map (\<lambda>j. map (\<lambda>i. (min_x + real i * grid_size,
                 max_y - real j * grid_size, min_x + (real i + 1) * grid_size,
                 max_y - (real j + 1) * grid_size)) [0..<nat ?cols]) [0..<nat ?rows])"
    by (simp add: grid_rect_def [abs_def])
  have 4: "map centroid ?cells
           = concat (map (\<lambda>j. map (\<lambda>i. (min_x + (real i + 1 / 2) * grid_size,
                 max_y - (real j + 1 / 2) * grid_size)) [0..<nat ?cols]) [0..<nat ?rows])"
    by (simp add: map_concat o_def centroid_grid_rect)
  from 1 2 3 4 show ?thesis by (intro exI [of _ ?cells] conjI)
qed

section \<open>The kernel weighting of one frame\<close>



section \<open>The grid\<close>




section \<open>The loop over the frames\<close>

text \<open>
  C9. The argument \<open>speed_method\<close> has no effect on the result of \<open>compute_speed_profile\<close>, and
  the error \<open>Speed method ... not accepted\<close> is never raised, whatever the arguments are.
\<close>

theorem speed_method_has_no_effect:
  "compute_speed_profile data walkable_area grid_size speed_method grid_intersections_area
     fill_value fwhm
   = compute_speed_profile data walkable_area grid_size speed_method' grid_intersections_area
     fill_value fwhm
   \<and> compute_speed_profile data walkable_area grid_size speed_method grid_intersections_area
       fill_value fwhm
     \<noteq> Inl (ValueError (''Speed method '' @ speed_method_str m @ '' not accepted''))"
proof
  show "compute_speed_profile data walkable_area grid_size speed_method grid_intersections_area
          fill_value fwhm
        = compute_speed_profile data walkable_area grid_size speed_method' grid_intersections_area
          fill_value fwhm"
    unfolding compute_speed_profile_def
    by (simp only: frame_profile_speed_method [of speed_method _ _ _ _ _ speed_method'])
next
  show "compute_speed_profile data walkable_area grid_size speed_method grid_intersections_area
          fill_value fwhm
        \<noteq> Inl (ValueError (''Speed method '' @ speed_method_str m @ '' not accepted''))"
  proof
    assume "compute_speed_profile data walkable_area grid_size speed_method
              grid_intersections_area fill_value fwhm
            = Inl (ValueError (''Speed method '' @ speed_method_str m @ '' not accepted''))"
    from compute_speed_profile_error [OF this] show False by simp
  qed
qed

theorem speed_method_has_no_effect_witness:
  "compute_speed_profile [\<lparr>frame_id = 0, pos_x = 0, pos_y = 0, speed = 1\<rparr>]
     \<lparr>bounds = (0, 0, 1, 1)\<rparr> 1 GAUSSIAN None NaN 1
   = compute_speed_profile [\<lparr>frame_id = 0, pos_x = 0, pos_y = 0, speed = 1\<rparr>]
     \<lparr>bounds = (0, 0, 1, 1)\<rparr> 1 VORONOI None NaN 1
   \<and> compute_speed_profile [\<lparr>frame_id = 0, pos_x = 0, pos_y = 0, speed = 1\<rparr>]
       \<lparr>bounds = (0, 0, 1, 1)\<rparr> 1 GAUSSIAN None NaN 1
     \<noteq> Inl (ValueError ''Speed method SpeedMethod.VORONOI not accepted'')"
proof -
  let ?data = "[\<lparr>frame_id = 0, pos_x = 0, pos_y = 0, speed = 1\<rparr>]"
  let ?area = "\<lparr>bounds = (0, 0, 1, 1)\<rparr>"
  have a: "compute_speed_profile ?data ?area 1 GAUSSIAN None NaN 1
           = compute_speed_profile ?data ?area 1 VORONOI None NaN 1"
    by (rule speed_method_has_no_effect [THEN conjunct1])
  have "compute_speed_profile ?data ?area 1 GAUSSIAN None NaN 1
        \<noteq> Inl (ValueError (''Speed method '' @ speed_method_str VORONOI @ '' not accepted''))"
    by (rule speed_method_has_no_effect [where speed_method' = GAUSSIAN, THEN conjunct2])
  then have b: "compute_speed_profile ?data ?area 1 GAUSSIAN None NaN 1
        \<noteq> Inl (ValueError ''Speed method SpeedMethod.VORONOI not accepted'')"
    by (simp add: speed_method_str_def)
  from a b show ?thesis by (rule conjI)
qed

text \<open>
  C6, as the module has it. \<open>fwhm\<close> is not validated: with \<open>grid_size > 0\<close> and a bounding box
  that is not degenerate, \<open>compute_speed_profile\<close> returns its profiles for every \<open>fwhm\<close>,
  positive or not; the result for \<open>- fwhm\<close> is the result for \<open>fwhm\<close>; and for \<open>fwhm = 0\<close> every
  cell of a frame with at least one agent is \<open>NaN\<close>.
\<close>

theorem fwhm_is_not_validated:
  assumes "bounds walkable_area = (min_x, min_y, max_x, max_y)"
    and "min_x < max_x" and "min_y < max_y" and "0 < grid_size"
  shows "(\<exists>speed_profiles.
            compute_speed_profile data walkable_area grid_size speed_method
              grid_intersections_area fill_value fwhm = Inr speed_profiles)
       \<and> compute_speed_profile data walkable_area grid_size speed_method
            grid_intersections_area fill_value (- fwhm)
          = compute_speed_profile data walkable_area grid_size speed_method
            grid_intersections_area fill_value fwhm
       \<and> (frame_data \<noteq> [] \<and> i < length center_y \<and> j < length center_x \<longrightarrow>
            compute_gaussian_weighted_speed_profile frame_data center_x center_y 0 ! i ! j = NaN)"
proof (intro conjI impI)
  show "\<exists>speed_profiles.
            compute_speed_profile data walkable_area grid_size speed_method
              grid_intersections_area fill_value fwhm = Inr speed_profiles"
    using compute_speed_profile_valid [OF assms] by blast
next
  show "compute_speed_profile data walkable_area grid_size speed_method
            grid_intersections_area fill_value (- fwhm)
          = compute_speed_profile data walkable_area grid_size speed_method
            grid_intersections_area fill_value fwhm"
    by (rule compute_speed_profile_neg_fwhm)
next
  assume "frame_data \<noteq> [] \<and> i < length center_y \<and> j < length center_x"
  then show "compute_gaussian_weighted_speed_profile frame_data center_x center_y 0 ! i ! j = NaN"
    by (simp add: profile_nth cell_value_zero_fwhm)
qed

theorem fwhm_is_not_validated_witness:
  "(\<exists>speed_profiles.
      compute_speed_profile [\<lparr>frame_id = 0, pos_x = 0, pos_y = 0, speed = 1\<rparr>]
        \<lparr>bounds = (0, 0, 1, 1)\<rparr> 1 GAUSSIAN None NaN (- 1) = Inr speed_profiles)
   \<and> compute_speed_profile [\<lparr>frame_id = 0, pos_x = 0, pos_y = 0, speed = 1\<rparr>]
        \<lparr>bounds = (0, 0, 1, 1)\<rparr> 1 GAUSSIAN None NaN (- (- 1))
     = compute_speed_profile [\<lparr>frame_id = 0, pos_x = 0, pos_y = 0, speed = 1\<rparr>]
        \<lparr>bounds = (0, 0, 1, 1)\<rparr> 1 GAUSSIAN None NaN (- 1)
   \<and> compute_gaussian_weighted_speed_profile [\<lparr>frame_id = 0, pos_x = 0, pos_y = 0, speed = 1\<rparr>]
        [1 / 2] [1 / 2] 0 ! 0 ! 0 = NaN"
  using fwhm_is_not_validated [of "\<lparr>bounds = (0, 0, 1, 1)\<rparr>" 0 0 1 1 1
      "[\<lparr>frame_id = 0, pos_x = 0, pos_y = 0, speed = 1\<rparr>]" GAUSSIAN None NaN "- 1"
      "[\<lparr>frame_id = 0, pos_x = 0, pos_y = 0, speed = 1\<rparr>]" 0 "[1 / 2]" 0 "[1 / 2]"]
  by simp

text \<open>
  C6, as stated, fails: with \<open>fwhm = -1\<close> the result is the profile of the frame, not an error.
\<close>

theorem negative_fwhm_is_accepted:
  "compute_speed_profile [\<lparr>frame_id = 0, pos_x = 0, pos_y = 0, speed = 1\<rparr>]
     \<lparr>bounds = (0, 0, 1, 1)\<rparr> 1 GAUSSIAN None NaN (- 1) = Inr [[[Fin 1]]]"
  by (simp add: unit_square_one_cell groupby_frame_def single_agent_profile)

text \<open>
  C2, as the module has it. With \<open>grid_size > 0\<close> and a bounding box that is not degenerate,
  \<open>compute_speed_profile\<close> returns one profile for each distinct \<open>frame_id\<close> of the table, in
  ascending order of \<open>frame_id\<close> (the order in which pandas iterates the groups), each computed
  from the rows of that frame on the centres of the grid.
\<close>

theorem one_profile_per_frame_in_ascending_order:
  assumes "bounds walkable_area = (min_x, min_y, max_x, max_y)"
    and "min_x < max_x" and "min_y < max_y" and "0 < grid_size"
  shows "compute_speed_profile data walkable_area grid_size speed_method grid_intersections_area
           fill_value fwhm
         = Inr (map (\<lambda>f. compute_gaussian_weighted_speed_profile
                            (filter (\<lambda>r. frame_id r = f) data)
                            (grid_center_x min_x grid_size (nat \<lceil>(max_x - min_x) / grid_size\<rceil>))
                            (grid_center_y max_y grid_size (nat \<lceil>(max_y - min_y) / grid_size\<rceil>))
                            fwhm)
                    (sorted_list_of_set (frame_id ` set data)))"
  using groupby_frame_sorted [of "\<lambda>frame_data. compute_gaussian_weighted_speed_profile frame_data
      (grid_center_x min_x grid_size (nat \<lceil>(max_x - min_x) / grid_size\<rceil>))
      (grid_center_y max_y grid_size (nat \<lceil>(max_y - min_y) / grid_size\<rceil>)) fwhm" data]
  by (simp only: compute_speed_profile_valid [OF assms])

theorem one_profile_per_frame_in_ascending_order_witness:
  "compute_speed_profile
     [\<lparr>frame_id = 2, pos_x = 1, pos_y = 1, speed = 2\<rparr>,
      \<lparr>frame_id = 1, pos_x = 0, pos_y = 0, speed = 1\<rparr>]
     \<lparr>bounds = (0, 0, 1, 1)\<rparr> 1 GAUSSIAN None NaN 1
   = Inr [[[Fin 1]], [[Fin 2]]]"
  using one_profile_per_frame_in_ascending_order [of "\<lparr>bounds = (0, 0, 1, 1)\<rparr>" 0 0 1 1 1
      "[\<lparr>frame_id = 2, pos_x = 1, pos_y = 1, speed = 2\<rparr>,
        \<lparr>frame_id = 1, pos_x = 0, pos_y = 0, speed = 1\<rparr>]" GAUSSIAN None NaN 1]
  by (simp add: grid_center_x_def grid_center_y_def single_agent_profile)

text \<open>
  C2, as stated, fails: in a table whose first row belongs to frame 2 and whose second row
  belongs to frame 1, frame 2 is the first one encountered, and its profile is the second
  of the result.
\<close>

theorem first_encountered_frame_is_not_first:
  "spec_first_encountered_order
     (map frame_id [\<lparr>frame_id = 2, pos_x = 1, pos_y = 1, speed = 2\<rparr>,
                    \<lparr>frame_id = 1, pos_x = 0, pos_y = 0, speed = 1\<rparr>]) = [2, 1]
   \<and> compute_gaussian_weighted_speed_profile [\<lparr>frame_id = 2, pos_x = 1, pos_y = 1, speed = 2\<rparr>]
       [1 / 2] [1 / 2] 1 = [[Fin 2]]
   \<and> compute_gaussian_weighted_speed_profile [\<lparr>frame_id = 1, pos_x = 0, pos_y = 0, speed = 1\<rparr>]
       [1 / 2] [1 / 2] 1 = [[Fin 1]]
   \<and> compute_speed_profile
       [\<lparr>frame_id = 2, pos_x = 1, pos_y = 1, speed = 2\<rparr>,
        \<lparr>frame_id = 1, pos_x = 0, pos_y = 0, speed = 1\<rparr>]
       \<lparr>bounds = (0, 0, 1, 1)\<rparr> 1 GAUSSIAN None NaN 1
     = Inr [[[Fin 1]], [[Fin 2]]]"
  by (simp add: unit_square_one_cell groupby_frame_def single_agent_profile)

end
